theory Spec2Isabelle
  imports Main "HOL-Library.Char_ord" "HOL-Library.List_Lexorder" "HOL-Library.Sublist"
begin

section \<open>The pipeline-configuration generator \<^verbatim>\<open>cloudbuild-k8s-generator.py\<close>\<close>

text \<open>
  The script lists the sub-directories of \<^verbatim>\<open>k8s\<close>, sorts them, drops the names of a
  static skip-list, renders a Jinja2 template over the remaining names and a static map of
  extra configurations, and then either writes the result to \<^verbatim>\<open>cloudbuild.yaml\<close> or
  compares it with that file. The model is of the script under Python 3 on a POSIX system.

  A Python string is kept as the \<^typ>\<open>string\<close> of the bytes that stand for it in the
  file-system encoding, which is how a directory name reaches the script; the template is
  ASCII. Python's comparison of strings is then the lexicographic order on lists
  (\<^verbatim>\<open>List_Lexorder\<close>) over the order of the character codes (\<^verbatim>\<open>Char_ord\<close>).
\<close>

subsection \<open>Static configuration\<close>

definition CLOUDBUILD_CONFIG :: string where
  "CLOUDBUILD_CONFIG = ''cloudbuild.yaml''"

definition skiplist :: "string list" where
  "skiplist = [''elastic-gke-logging'', ''elasticsearch'', ''spark-operator'']"

record extra_config =
  name :: string
  env_vars :: "string list"

definition extra_configs :: "string \<rightharpoonup> extra_config list" where
  "extra_configs =
     [''wordpress'' \<mapsto>
        [\<lparr>name = ''Public service and ingress'',
          env_vars = [''PUBLIC_SERVICE_AND_INGRESS_ENABLED=true'']\<rparr>,
         \<lparr>name = ''Prometheus metrics'',
          env_vars = [''METRICS_EXPORTER_ENABLED=true'']\<rparr>]]"


subsection \<open>Errors\<close>

text \<open>
  The exceptions that end a run: \<^verbatim>\<open>OSError\<close> (with its subclasses, raised by \<^verbatim>\<open>os.listdir\<close>
  and \<^verbatim>\<open>open\<close>), \<^verbatim>\<open>TypeError\<close> (raised while rendering), and the two errors of the codec of
  a text file.
\<close>

datatype error = OSError | TypeError | UnicodeEncodeError | UnicodeDecodeError

subsection \<open>Jinja2's subscript and loop\<close>

text \<open>
  The template reads \<^verbatim>\<open>extra_configs[solution]\<close> and loops over the result. In Jinja2 a
  subscript \<^verbatim>\<open>d[k]\<close> is the item of \<^verbatim>\<open>d\<close> under \<^verbatim>\<open>k\<close> when there is one; otherwise, for
  a string \<^verbatim>\<open>k\<close>, it is the attribute \<^verbatim>\<open>getattr(d, k)\<close> when the object has one; and only
  otherwise the value \<open>Undefined\<close>. A \<^verbatim>\<open>for\<close> loop over \<open>Undefined\<close> runs zero times; a loop
  over a value that cannot be iterated raises \<^verbatim>\<open>TypeError\<close>.

  Which names are attributes of a Python dictionary is not part of this repository (it
  belongs to the interpreter and differs between its versions), so the table is a parameter
  of the model: \<open>attrs k\<close> is what \<^verbatim>\<open>getattr\<close> finds on the dictionary under \<open>k\<close>, or \<open>None\<close>
  when it raises \<^verbatim>\<open>AttributeError\<close>. An attribute of a dictionary is either a value that
  cannot be iterated (a method such as \<^verbatim>\<open>keys\<close>, a type, \<^verbatim>\<open>None\<close>) or a string (\<^verbatim>\<open>__doc__\<close>).
  A loop over a string runs once for every character, and the character has neither the
  item \<^verbatim>\<open>name\<close> nor \<^verbatim>\<open>env_vars\<close>: both subscripts are \<open>Undefined\<close>, the first prints as
  the empty string and the loop over the second runs zero times, which is how the template
  renders \<open>blank_config\<close>.
\<close>

datatype attribute = NotIterable | Text string

type_synonym attributes = "string \<Rightarrow> attribute option"

datatype 'a jinja = Undefined | Item 'a | Attribute attribute

definition getitem :: "attributes \<Rightarrow> (string \<rightharpoonup> 'v) \<Rightarrow> string \<Rightarrow> 'v jinja" where
  "getitem attrs d k =
     (case d k of
        Some v \<Rightarrow> Item v
      | None \<Rightarrow> (case attrs k of Some a \<Rightarrow> Attribute a | None \<Rightarrow> Undefined))"

definition blank_config :: extra_config where
  "blank_config = \<lparr>name = [], env_vars = []\<rparr>"

fun iterate :: "extra_config list jinja \<Rightarrow> error + extra_config list" where
  "iterate Undefined = Inr []"
| "iterate (Item xs) = Inr xs"
| "iterate (Attribute NotIterable) = Inl TypeError"
| "iterate (Attribute (Text t)) = Inr (map (\<lambda>c. blank_config) t)"

subsection \<open>The template\<close>

text \<open>
  \<^verbatim>\<open>CLOUDBUILD_TEMPLATE\<close> is kept line by line. Every block tag of the template is written
  \<^verbatim>\<open>{%- ... %}\<close>: the minus sign removes all white space in front of the tag and nothing
  behind it, so the text of a loop body starts with the line break that follows its opening
  tag and ends with the last non-blank line before its closing tag. A loop body is therefore
  a list of lines each of which is preceded by a line break (the first of them the empty
  line), and the text between two adjacent tags is empty. The template is stripped, so the
  preamble starts at its first line with no line break in front.
\<close>

type_synonym line = string

abbreviation q :: string where
  "q \<equiv> [CHR 0x27]"

definition preamble :: "line list" where
  \<open>preamble =
    [''# Copyright 2018 Google LLC'',
     ''#'',
     ''# Licensed under the Apache License, Version 2.0 (the "License");'',
     ''# you may not use this file except in compliance with the License.'',
     ''# You may obtain a copy of the License at'',
     ''#'',
     ''#      http://www.apache.org/licenses/LICENSE-2.0'',
     ''#'',
     ''# Unless required by applicable law or agreed to in writing, software'',
     ''# distributed under the License is distributed on an "AS IS" BASIS,'',
     ''# WITHOUT WARRANTIES OR CONDITIONS OF ANY KIND, either express or implied.'',
     ''# See the License for the specific language governing permissions and'',
     ''# limitations under the License.'',
     [],
     ''##################################################################################'',
     ''## This file is generated by cloudbuild-k8s-generator.py. Do not manually edit. ##'',
     ''##################################################################################'',
     [],
     ''timeout: 1800s # 30m'',
     ''options:'',
     ''  machineType: '' @ q @ ''N1_HIGHCPU_8'' @ q,
     ''substitutions:'',
     ''  _CLUSTER_NAME: cluster-1'',
     ''  _CLUSTER_LOCATION: us-central1'',
     ''steps:'',
     [],
     ''- id: Pull Dev Image'',
     ''  name: gcr.io/cloud-builders/docker'',
     ''  dir: k8s'',
     ''  entrypoint: bash'',
     ''  args:'',
     ''  - -exc'',
     ''  - |'',
     ''    TAG="$$(cat ./MARKETPLACE_TOOLS_TAG)"'',
     ''    docker pull "gcr.io/cloud-marketplace-tools/k8s/dev:$$TAG"'',
     ''    docker tag "gcr.io/cloud-marketplace-tools/k8s/dev:$$TAG" "gcr.io/cloud-marketplace-tools/k8s/dev:local"'',
     [],
     ''- id: Get Kubernetes Credentials'',
     ''  name: gcr.io/cloud-builders/gcloud'',
     ''  args:'',
     ''  - container'',
     ''  - clusters'',
     ''  - get-credentials'',
     ''  - '' @ q @ ''$_CLUSTER_NAME'' @ q,
     ''  - --region'',
     ''  - '' @ q @ ''$_CLUSTER_LOCATION'' @ q,
     ''  - --project'',
     ''  - '' @ q @ ''$PROJECT_ID'' @ q,
     [],
     ''- id: Copy kubectl Credentials'',
     ''  name: gcr.io/google-appengine/debian9'',
     ''  waitFor:'',
     ''  - Get Kubernetes Credentials'',
     ''  entrypoint: bash'',
     ''  args:'',
     ''  - -exc'',
     ''  - |'',
     ''    mkdir -p /workspace/.kube/'',
     ''    cp -r $$HOME/.kube/ /workspace/'',
     [],
     ''- id: Copy gcloud Credentials'',
     ''  name: gcr.io/google-appengine/debian9'',
     ''  waitFor:'',
     ''  - Get Kubernetes Credentials'',
     ''  entrypoint: bash'',
     ''  args:'',
     ''  - -exc'',
     ''  - |'',
     ''    mkdir -p /workspace/.config/gcloud/'',
     ''    cp -r $$HOME/.config/gcloud/ /workspace/.config/'']\<close>

definition build_step :: "string \<Rightarrow> line list" where
  \<open>build_step solution =
    [[],
     ''- id: Build '' @ solution,
     ''  name: gcr.io/cloud-marketplace-tools/k8s/dev:local'',
     ''  env:'',
     ''  - '' @ q @ ''KUBE_CONFIG=/workspace/.kube'' @ q,
     ''  - '' @ q @ ''GCLOUD_CONFIG=/workspace/.config/gcloud'' @ q,
     ''  # Use local Docker network named cloudbuild as described here:'',
     ''  # https://cloud.google.com/cloud-build/docs/overview#build_configuration_and_build_steps'',
     ''  - '' @ q @ ''EXTRA_DOCKER_PARAMS=--net cloudbuild'' @ q,
     ''  dir: k8s/'' @ solution,
     ''  args:'',
     ''  - make'',
     ''  - -j4'',
     ''  - app/build'']\<close>

definition verify_step :: "string \<Rightarrow> line list" where
  \<open>verify_step solution =
    [[],
     ''- id: Verify '' @ solution,
     ''  name: gcr.io/cloud-marketplace-tools/k8s/dev:local'',
     ''  waitFor:'',
     ''  - Copy kubectl Credentials'',
     ''  - Copy gcloud Credentials'',
     ''  - Pull Dev Image'',
     ''  - Build '' @ solution,
     ''  env:'',
     ''  - '' @ q @ ''KUBE_CONFIG=/workspace/.kube'' @ q,
     ''  - '' @ q @ ''GCLOUD_CONFIG=/workspace/.config/gcloud'' @ q,
     ''  # Use local Docker network named cloudbuild as described here:'',
     ''  # https://cloud.google.com/cloud-build/docs/overview#build_configuration_and_build_steps'',
     ''  - '' @ q @ ''EXTRA_DOCKER_PARAMS=--net cloudbuild'' @ q,
     ''  dir: k8s/'' @ solution,
     ''  args:'',
     ''  - make'',
     ''  - -j4'',
     ''  - app/verify'']\<close>

definition env_var_item :: "string \<Rightarrow> line list" where
  \<open>env_var_item env_var =
    [''  - '' @ q @ env_var @ q]\<close>

definition extra_verify_step :: "string \<Rightarrow> extra_config \<Rightarrow> line list" where
  \<open>extra_verify_step solution extra_config =
    [[],
     ''- id: Verify '' @ solution @ '' ('' @ name extra_config @ '')'',
     ''  name: gcr.io/cloud-marketplace-tools/k8s/dev:local'',
     ''  waitFor:'',
     ''  - Copy kubectl Credentials'',
     ''  - Copy gcloud Credentials'',
     ''  - Pull Dev Image'',
     ''  - Build '' @ solution,
     ''  env:'',
     ''  - '' @ q @ ''KUBE_CONFIG=/workspace/.kube'' @ q,
     ''  - '' @ q @ ''GCLOUD_CONFIG=/workspace/.config/gcloud'' @ q,
     ''  # Use local Docker network named cloudbuild as described here:'',
     ''  # https://cloud.google.com/cloud-build/docs/overview#build_configuration_and_build_steps'',
     ''  - '' @ q @ ''EXTRA_DOCKER_PARAMS=--net cloudbuild'' @ q,
     ''  # Non-default variables.'']
    @ concat (map env_var_item (env_vars extra_config)) @
    [''  dir: k8s/'' @ solution,
     ''  args:'',
     ''  - make'',
     ''  - -j4'',
     ''  - app/verify'']\<close>

text \<open>
  The second loop of the template, for one solution: its Verify step and one further step
  for every item of the inner loop. The loop stops at the first error.
\<close>

definition verify_steps ::
  "attributes \<Rightarrow> (string \<rightharpoonup> extra_config list) \<Rightarrow> string \<Rightarrow> error + line list" where
  "verify_steps attrs configs solution =
     (case iterate (getitem attrs configs solution) of
        Inl e \<Rightarrow> Inl e
      | Inr variants \<Rightarrow>
          Inr (verify_step solution @ concat (map (extra_verify_step solution) variants)))"

fun verify_phase ::
  "attributes \<Rightarrow> (string \<rightharpoonup> extra_config list) \<Rightarrow> string list \<Rightarrow> error + line list" where
  "verify_phase attrs configs [] = Inr []"
| "verify_phase attrs configs (solution # rest) =
     (case verify_steps attrs configs solution of
        Inl e \<Rightarrow> Inl e
      | Inr ls \<Rightarrow>
          (case verify_phase attrs configs rest of
             Inl e \<Rightarrow> Inl e
           | Inr others \<Rightarrow> Inr (ls @ others)))"

definition render_lines ::
  "attributes \<Rightarrow> string list \<Rightarrow> (string \<rightharpoonup> extra_config list) \<Rightarrow> error + line list" where
  "render_lines attrs solutions configs =
     (case verify_phase attrs configs solutions of
        Inl e \<Rightarrow> Inl e
      | Inr verify \<Rightarrow> Inr (preamble @ concat (map build_step solutions) @ verify))"

text \<open>The rendered text: the lines with one line break between any two of them.\<close>

definition newline :: char where
  "newline = CHR 0x0A"

fun join_lines :: "line list \<Rightarrow> string" where
  "join_lines [] = []"
| "join_lines [l] = l"
| "join_lines (l # ls) = l @ newline # join_lines ls"

definition render ::
  "attributes \<Rightarrow> string list \<Rightarrow> (string \<rightharpoonup> extra_config list) \<Rightarrow> error + string" where
  "render attrs solutions configs =
     (case render_lines attrs solutions configs of
        Inl e \<Rightarrow> Inl e
      | Inr ls \<Rightarrow> Inr (join_lines ls))"

subsection \<open>Text files\<close>

text \<open>
  The script opens \<^verbatim>\<open>cloudbuild.yaml\<close> in text mode. A file holds bytes; reading decodes
  them and then takes every \<^verbatim>\<open>CR LF\<close> and every other \<^verbatim>\<open>CR\<close> for a line feed, writing
  encodes the text and leaves its line feeds as they are. The codec is the encoding of the
  locale, which is not part of this repository, so it is a parameter of the model: \<open>encode\<close>
  and \<open>decode\<close> give \<open>None\<close> where Python raises \<^verbatim>\<open>UnicodeEncodeError\<close> and
  \<^verbatim>\<open>UnicodeDecodeError\<close>. The same holds of standard output: \<open>printable\<close> says of a line
  that \<^verbatim>\<open>print\<close> can encode it; where it cannot, \<^verbatim>\<open>print\<close> raises \<^verbatim>\<open>UnicodeEncodeError\<close>.
\<close>

record codec =
  encode :: "string \<Rightarrow> string option"
  decode :: "string \<Rightarrow> string option"
  printable :: "string \<Rightarrow> bool"

definition carriage_return :: char where
  "carriage_return = CHR 0x0D"

fun universal_newlines :: "string \<Rightarrow> string" where
  "universal_newlines [] = []"
| "universal_newlines [c] = [if c = carriage_return then newline else c]"
| "universal_newlines (c # d # cs) =
     (if c = carriage_return
      then (if d = newline then newline # universal_newlines cs
            else newline # universal_newlines (d # cs))
      else c # universal_newlines (d # cs))"

record text_file =
  readable :: bool
  writable :: bool
  bytes :: string

definition read_text :: "codec \<Rightarrow> text_file \<Rightarrow> error + string" where
  "read_text codec f =
     (if \<not> readable f then Inl OSError
      else (case decode codec (bytes f) of
              None \<Rightarrow> Inl UnicodeDecodeError
            | Some text \<Rightarrow> Inr (universal_newlines text)))"

subsection \<open>The file system the script sees\<close>

text \<open>
  The script looks at two places. One is the directory \<^verbatim>\<open>k8s\<close>, through \<^verbatim>\<open>os.listdir\<close>
  (which raises when the directory cannot be listed, and otherwise returns the entry names
  in no particular order) and \<^verbatim>\<open>os.path.isdir\<close> on each entry. The other is the path
  \<^verbatim>\<open>cloudbuild.yaml\<close>, which is absent, a regular file, or something else (a directory), for
  which \<^verbatim>\<open>os.path.isfile\<close> is false and \<^verbatim>\<open>open\<close> raises. \<open>create\<close> is the file that
  \<^verbatim>\<open>open(..., 'w')\<close> makes at an absent path, with the permissions the process gives it, or
  \<open>None\<close> when the working directory does not allow it.
\<close>

datatype node = Missing | Regular text_file | Directory

record filesystem =
  listdir :: "string list option"
  isdir :: "string \<Rightarrow> bool"
  cloudbuild_yaml :: node
  create :: "text_file option"

datatype exit_status = Exit nat | Raised error

record outcome =
  printed :: "string list"
  status :: exit_status
  fs_after :: filesystem

subsection \<open>The script\<close>

text \<open>
  \<^verbatim>\<open>verify_cloudbuild\<close>: false when the path is no regular file, otherwise the comparison of
  the text read with the rendered document; opening or reading the file may raise.
\<close>

definition verify_cloudbuild :: "codec \<Rightarrow> filesystem \<Rightarrow> string \<Rightarrow> error + bool" where
  "verify_cloudbuild codec fs cloudbuild_contents =
     (case cloudbuild_yaml fs of
        Regular f \<Rightarrow>
          (case read_text codec f of
             Inl e \<Rightarrow> Inl e
           | Inr text \<Rightarrow> Inr (text = cloudbuild_contents))
      | _ \<Rightarrow> Inr False)"

text \<open>
  \<^verbatim>\<open>open(CLOUDBUILD_CONFIG, 'w')\<close>: the file the script then writes to, emptied or newly
  made, or the error.
\<close>

definition open_for_writing :: "filesystem \<Rightarrow> error + text_file" where
  "open_for_writing fs =
     (case cloudbuild_yaml fs of
        Missing \<Rightarrow>
          (case create fs of None \<Rightarrow> Inl OSError | Some f \<Rightarrow> Inr (f\<lparr>bytes := []\<rparr>))
      | Regular f \<Rightarrow> (if writable f then Inr (f\<lparr>bytes := []\<rparr>) else Inl OSError)
      | Directory \<Rightarrow> Inl OSError)"

text \<open>
  The loop of \<^verbatim>\<open>main\<close> over the sorted listing: the lines it prints and the list
  \<^verbatim>\<open>solutions_to_build\<close> it collects.
\<close>

fun solutions_loop :: "string list \<Rightarrow> string list \<times> string list" where
  "solutions_loop [] = ([], [])"
| "solutions_loop (solution # rest) =
     (let (out, solutions_to_build) = solutions_loop rest in
      if solution \<in> set skiplist
      then ((''Skipping solution: '' @ solution) # out, solutions_to_build)
      else ((''Adding config for solution: '' @ solution) # out,
            solution # solutions_to_build))"

definition sorted_listdir :: "filesystem \<Rightarrow> string list \<Rightarrow> string list" where
  "sorted_listdir fs names = sort [f \<leftarrow> names. isdir fs f]"

definition solutions_to_build :: "filesystem \<Rightarrow> string list \<Rightarrow> string list" where
  "solutions_to_build fs names = snd (solutions_loop (sorted_listdir fs names))"

definition printed_lines :: "filesystem \<Rightarrow> string list \<Rightarrow> string list" where
  "printed_lines fs names = fst (solutions_loop (sorted_listdir fs names))"

definition cloudbuild_lines :: "attributes \<Rightarrow> filesystem \<Rightarrow> string list \<Rightarrow> error + line list" where
  "cloudbuild_lines attrs fs names =
     render_lines attrs (solutions_to_build fs names) extra_configs"

definition cloudbuild_contents :: "attributes \<Rightarrow> filesystem \<Rightarrow> string list \<Rightarrow> error + string" where
  "cloudbuild_contents attrs fs names =
     (case render attrs (solutions_to_build fs names) extra_configs of
        Inl e \<Rightarrow> Inl e
      | Inr text \<Rightarrow> Inr (text @ [newline]))"

text \<open>
  \<^verbatim>\<open>main\<close>, with the flag \<^verbatim>\<open>--verify_only\<close> as its third argument. An exception ends the
  run where it is raised: listing \<^verbatim>\<open>k8s\<close> comes first, then the loop prints its lines (up
  to the first that standard output cannot encode), rendering follows, and the output file
  is touched last. In write mode the file is emptied when it is opened, so a text that
  cannot be encoded leaves it empty. The two lines that report the result of verify mode
  are ASCII, which every encoding of standard output takes.
\<close>

definition main :: "attributes \<Rightarrow> codec \<Rightarrow> bool \<Rightarrow> filesystem \<Rightarrow> outcome" where
  "main attrs codec verify_only fs =
     (case listdir fs of
        None \<Rightarrow> \<lparr>printed = [], status = Raised OSError, fs_after = fs\<rparr>
      | Some names \<Rightarrow>
          let out = printed_lines fs names in
          if \<not> list_all (printable codec) out then
            \<lparr>printed = takeWhile (printable codec) out, status = Raised UnicodeEncodeError,
             fs_after = fs\<rparr>
          else
          (case cloudbuild_contents attrs fs names of
             Inl e \<Rightarrow> \<lparr>printed = out, status = Raised e, fs_after = fs\<rparr>
           | Inr contents \<Rightarrow>
               if verify_only then
                 (case verify_cloudbuild codec fs contents of
                    Inl e \<Rightarrow> \<lparr>printed = out, status = Raised e, fs_after = fs\<rparr>
                  | Inr True \<Rightarrow>
                      \<lparr>printed = out @ [''The '' @ CLOUDBUILD_CONFIG @ '' file is up-to-date''],
                       status = Exit 0, fs_after = fs\<rparr>
                  | Inr False \<Rightarrow>
                      \<lparr>printed = out @ [''The '' @ CLOUDBUILD_CONFIG @
                                        '' file is not up-to-date. Please re-generate it''],
                       status = Exit 1, fs_after = fs\<rparr>)
               else
                 (case open_for_writing fs of
                    Inl e \<Rightarrow> \<lparr>printed = out, status = Raised e, fs_after = fs\<rparr>
                  | Inr f \<Rightarrow>
                      (case encode codec contents of
                         None \<Rightarrow>
                           \<lparr>printed = out, status = Raised UnicodeEncodeError,
                            fs_after = fs\<lparr>cloudbuild_yaml := Regular f\<rparr>\<rparr>
                       | Some written \<Rightarrow>
                           \<lparr>printed = out, status = Exit 0,
                            fs_after =
                              fs\<lparr>cloudbuild_yaml := Regular (f\<lparr>bytes := written\<rparr>)\<rparr>\<rparr>))))"

subsection \<open>Reading the steps of a rendered document\<close>

text \<open>
  A step of the pipeline is a block of lines that starts with a line \<^verbatim>\<open>- id: ...\<close> and
  runs up to the next blank line. Within a step, the entries of a list are the lines
  \<^verbatim>\<open>  - ...\<close> below its key, comments between them apart.
\<close>

definition is_id_line :: "line \<Rightarrow> bool" where
  "is_id_line l = prefix ''- id: '' l"

definition nonblank :: "line \<Rightarrow> bool" where
  "nonblank l = (l \<noteq> [])"

fun steps :: "line list \<Rightarrow> line list list" where
  "steps [] = []"
| "steps (l # ls) =
     (if is_id_line l then (l # takeWhile nonblank ls) # steps ls else steps ls)"

fun step_id :: "line list \<Rightarrow> string" where
  "step_id [] = []"
| "step_id (l # ls) = drop 6 l"

definition step_ids :: "line list \<Rightarrow> string list" where
  "step_ids doc = map step_id (steps doc)"

definition is_item :: "line \<Rightarrow> bool" where
  "is_item l = prefix ''  - '' l"

definition is_comment :: "line \<Rightarrow> bool" where
  "is_comment l = prefix ''  #'' l"

fun after :: "line \<Rightarrow> line list \<Rightarrow> line list" where
  "after key [] = []"
| "after key (l # ls) = (if l = key then ls else after key ls)"

definition items :: "line \<Rightarrow> line list \<Rightarrow> string list" where
  "items key step =
     map (drop 4) (filter is_item
       (takeWhile (\<lambda>l. is_item l \<or> is_comment l) (after key step)))"

definition wait_for :: "line list \<Rightarrow> string list" where
  "wait_for step = items ''  waitFor:'' step"

definition non_default_vars :: "line list \<Rightarrow> string list" where
  "non_default_vars step =
     map (drop 4) (takeWhile is_item (after ''  # Non-default variables.'' step))"

text \<open>
  The entries of the \<^verbatim>\<open>env\<close> list of a step; \<open>default_env\<close> are the three entries the
  template gives to every Build and Verify step.
\<close>

definition env_entries :: "line list \<Rightarrow> string list" where
  "env_entries step = items ''  env:'' step"

abbreviation default_env :: "string list" where
  "default_env \<equiv>
     [q @ ''KUBE_CONFIG=/workspace/.kube'' @ q,
      q @ ''GCLOUD_CONFIG=/workspace/.config/gcloud'' @ q,
      q @ ''EXTRA_DOCKER_PARAMS=--net cloudbuild'' @ q]"

text \<open>The solutions of a document are the names of its Build steps.\<close>

definition built_solutions :: "line list \<Rightarrow> string list" where
  "built_solutions doc = map (drop 6) (filter (prefix ''Build '') (step_ids doc))"

text \<open>
  A document is read as the sequence of its steps, each with its id and the entries of its
  \<^verbatim>\<open>waitFor\<close> list. \<open>waits_defined seen\<close> holds when every entry names a step that stands
  earlier in the sequence, or one of \<open>seen\<close>.
\<close>

fun waits_defined :: "string list \<Rightarrow> (string \<times> string list) list \<Rightarrow> bool" where
  "waits_defined seen [] = True"
| "waits_defined seen ((i, waits) # rest) =
     (list_all (\<lambda>r. r \<in> set seen) waits \<and> waits_defined (i # seen) rest)"

subsection \<open>From the text back to the lines\<close>

text \<open>
  The steps of the text that \<^verbatim>\<open>main\<close> writes and compares are the steps of its lines:
  \<open>split_lines\<close> cuts a text at its line feeds. \<open>lacks c\<close> says of a string, and
  \<open>config_lacks c\<close> of the strings of an extra configuration, that the character \<open>c\<close> is not
  in it.
\<close>

fun split_lines :: "string \<Rightarrow> line list" where
  "split_lines [] = [[]]"
| "split_lines (c # cs) =
     (if c = newline then [] # split_lines cs
      else (case split_lines cs of [] \<Rightarrow> [[c]] | l # ls \<Rightarrow> (c # l) # ls))"

definition lacks :: "char \<Rightarrow> string \<Rightarrow> bool" where
  "lacks c s = (c \<notin> set s)"

definition config_lacks :: "char \<Rightarrow> extra_config \<Rightarrow> bool" where
  "config_lacks c v = (lacks c (name v) \<and> list_all (lacks c) (env_vars v))"

text \<open>The steps of a text are the steps of its lines.\<close>

definition text_steps :: "string \<Rightarrow> line list list" where
  "text_steps text = steps (split_lines text)"

subsection \<open>The shape of the template's loop bodies\<close>

text \<open>
  Every loop body of the template is a blank line, the id line of a step, and lines that
  are neither blank nor id lines. \<open>verify_chunks\<close> are the bodies that make up the verify
  phase of one solution whose inner loop runs over the given items.
\<close>

definition plain_line :: "line \<Rightarrow> bool" where
  "plain_line l = (nonblank l \<and> \<not> is_id_line l)"

definition step_chunk :: "line list \<Rightarrow> bool" where
  "step_chunk c =
     (case c of
        [] # l # rest \<Rightarrow> is_id_line l \<and> list_all plain_line rest
      | _ \<Rightarrow> False)"

fun at_break :: "line list \<Rightarrow> bool" where
  "at_break [] = True"
| "at_break (l # ls) = (l = [])"

definition verify_chunks :: "string \<Rightarrow> extra_config list \<Rightarrow> line list list" where
  "verify_chunks solution variants =
     verify_step solution # map (extra_verify_step solution) variants"

text \<open>
  \<open>loop_items\<close> are the items the inner loop of a solution runs over when it runs, and
  \<open>expand\<close> are the lines the template produces when the inner loop of every solution
  runs over the given items.
\<close>

definition loop_items ::
  "attributes \<Rightarrow> (string \<rightharpoonup> extra_config list) \<Rightarrow> string \<Rightarrow> extra_config list" where
  "loop_items attrs configs solution =
     (case iterate (getitem attrs configs solution) of
        Inl e \<Rightarrow> []
      | Inr variants \<Rightarrow> variants)"

definition expand :: "string list \<Rightarrow> (string \<Rightarrow> extra_config list) \<Rightarrow> line list" where
  "expand solutions variants =
     preamble @
     concat (map build_step solutions) @
     concat (map (\<lambda>s. concat (verify_chunks s (variants s))) solutions)"

subsection \<open>Examples\<close>

text \<open>
  \<open>dict_attributes\<close> is the attribute table of a dictionary in Python 3.11: its methods and
  its other attributes that cannot be iterated, and the string \<^verbatim>\<open>__doc__\<close>. \<open>latin1\<close> is the
  codec of an ISO-8859-1 locale, in which every byte is a character and every line can be
  printed.
\<close>

definition dict_doc :: string where
  \<open>dict_doc =
     join_lines
       [''dict() -> new empty dictionary'',
        ''dict(mapping) -> new dictionary initialized from a mapping object's'',
        ''    (key, value) pairs'',
        ''dict(iterable) -> new dictionary initialized as if via:'',
        ''    d = {}'',
        ''    for k, v in iterable:'',
        ''        d[k] = v'',
        ''dict('' @ ''**kwargs) -> new dictionary initialized with the name=value pairs'',
        ''    in the keyword argument list.  For example:  dict(one=1, two=2)'']\<close>

definition dict_attributes :: attributes where
  "dict_attributes =
     (map_of (map (\<lambda>m. (m, NotIterable))
       [''__class__'', ''__class_getitem__'', ''__contains__'', ''__delattr__'',
        ''__delitem__'', ''__dir__'', ''__eq__'', ''__format__'', ''__ge__'',
        ''__getattribute__'', ''__getitem__'', ''__getstate__'', ''__gt__'',
        ''__hash__'', ''__init__'', ''__init_subclass__'', ''__ior__'', ''__iter__'',
        ''__le__'', ''__len__'', ''__lt__'', ''__ne__'', ''__new__'', ''__or__'',
        ''__reduce__'', ''__reduce_ex__'', ''__repr__'', ''__reversed__'', ''__ror__'',
        ''__setattr__'', ''__setitem__'', ''__sizeof__'', ''__str__'',
        ''__subclasshook__'', ''clear'', ''copy'', ''fromkeys'', ''get'', ''items'',
        ''keys'', ''pop'', ''popitem'', ''setdefault'', ''update'', ''values'']))
     (''__doc__'' \<mapsto> Text dict_doc)"

definition latin1 :: codec where
  "latin1 = \<lparr>encode = Some, decode = Some, printable = (\<lambda>l. True)\<rparr>"

text \<open>
  \<open>new_file\<close> is an empty file that its owner may read and write, and \<open>directories\<close> is a
  file system in which \<^verbatim>\<open>k8s\<close> holds the given directories and there is no output file yet.
  \<open>stale_fs\<close> holds an output file that differs from the rendered document in one trailing
  blank only, \<open>crlf_fs\<close> one whose last line ends in \<^verbatim>\<open>CR LF\<close>. \<open>fresh_fs\<close> has no output file
  yet; \<open>shuffled_fs\<close> lists the same directories as \<open>fresh_fs\<close> in another order, next to a
  plain file of another name; \<open>keys_fs\<close> has a directory named \<^verbatim>\<open>keys\<close>.
\<close>

definition new_file :: text_file where
  "new_file = \<lparr>readable = True, writable = True, bytes = []\<rparr>"

definition directories :: "string list \<Rightarrow> filesystem" where
  "directories names =
     \<lparr>listdir = Some names, isdir = (\<lambda>f. True), cloudbuild_yaml = Missing,
      create = Some new_file\<rparr>"

definition stale_fs :: filesystem where
  "stale_fs =
     \<lparr>listdir = Some [''redis''], isdir = (\<lambda>f. True),
      cloudbuild_yaml =
        Regular (new_file\<lparr>bytes :=
          join_lines (expand [''redis''] (\<lambda>s. [])) @ [newline] @ '' ''\<rparr>),
      create = Some new_file\<rparr>"

definition crlf_fs :: filesystem where
  "crlf_fs =
     \<lparr>listdir = Some [''README.md''], isdir = (\<lambda>f. False),
      cloudbuild_yaml =
        Regular (new_file\<lparr>bytes := join_lines preamble @ [carriage_return, newline]\<rparr>),
      create = Some new_file\<rparr>"

definition fresh_fs :: filesystem where
  "fresh_fs =
     \<lparr>listdir = Some [''wordpress'', ''spark-operator'', ''README.md'', ''redis''],
      isdir = (\<lambda>f. f \<noteq> ''README.md''), cloudbuild_yaml = Missing,
      create = Some new_file\<rparr>"

definition shuffled_fs :: filesystem where
  "shuffled_fs =
     \<lparr>listdir = Some [''redis'', ''wordpress'', ''spark-operator'', ''Makefile''],
      isdir = (\<lambda>f. f \<noteq> ''Makefile''), cloudbuild_yaml = Directory,
      create = Some new_file\<rparr>"

definition keys_fs :: filesystem where
  "keys_fs =
     \<lparr>listdir = Some [''keys'', ''redis''], isdir = (\<lambda>f. True), cloudbuild_yaml = Missing,
      create = Some new_file\<rparr>"

text \<open>
  Directory names that hold line feeds, each followed by a line of the kind the template
  writes, and one that holds a carriage return.
\<close>

definition build_injection :: string where
  "build_injection = ''a'' @ [newline, newline] @ ''- id: Build elasticsearch''"

definition verify_injection :: string where
  "verify_injection = ''wordpress'' @ [newline, newline] @ ''- id: Verify wordpress (Fake)''"

definition order_injection :: string where
  "order_injection = ''a'' @ [newline, newline] @ ''- id: Verify zz''"

definition wait_injection :: string where
  "wait_injection = ''a'' @ [newline] @ ''  waitFor:'' @ [newline] @ ''  - Ghost''"

definition return_name :: string where
  "return_name = ''a'' @ [carriage_return] @ ''b''"

section \<open>Properties\<close>

subsection \<open>Discovery\<close>

lemma sorted_listdir_set:
  assumes "distinct names"
  shows "sorted_listdir fs names = sorted_list_of_set {f \<in> set names. isdir fs f}"
proof -
  let ?ds = "[f \<leftarrow> names. isdir fs f]"
  have "distinct ?ds" using assms by simp
  then have r: "remdups ?ds = ?ds" by (rule distinct_remdups_id)
  have "sorted_list_of_set {f \<in> set names. isdir fs f} = sorted_list_of_set (set ?ds)"
    by simp
  also have "\<dots> = sort (remdups ?ds)" by (rule sorted_list_of_set_sort_remdups)
  also have "\<dots> = sort ?ds" by (simp only: r)
  finally show ?thesis by (simp add: sorted_listdir_def)
qed

lemma snd_solutions_loop: "snd (solutions_loop xs) = filter (\<lambda>s. s \<notin> set skiplist) xs"
  by (induction xs) (auto simp add: Let_def split: prod.split)

lemma contents_frame [simp]:
  "cloudbuild_contents attrs (fs\<lparr>cloudbuild_yaml := n\<rparr>) names =
   cloudbuild_contents attrs fs names"
  by (simp add: cloudbuild_contents_def solutions_to_build_def sorted_listdir_def)

lemma printed_lines_frame [simp]:
  "printed_lines (fs\<lparr>cloudbuild_yaml := n\<rparr>) names = printed_lines fs names"
  by (simp add: printed_lines_def sorted_listdir_def)

subsection \<open>When rendering gives a document\<close>

lemma verify_phase_lines:
  "verify_phase attrs configs solutions = Inr ls \<Longrightarrow>
   ls = concat (map (\<lambda>s. concat (verify_chunks s (loop_items attrs configs s))) solutions)"
proof (induction solutions arbitrary: ls)
  case Nil
  then show ?case by simp
next
  case (Cons s rest)
  then show ?case
    by (auto simp add: verify_steps_def verify_chunks_def loop_items_def split: sum.splits)
qed

lemma render_lines_expand:
  "render_lines attrs solutions configs = Inr doc \<Longrightarrow>
   doc = expand solutions (loop_items attrs configs)"
  by (auto simp add: render_lines_def expand_def split: sum.splits dest: verify_phase_lines)

text \<open>
  Rendering goes through when no solution without an entry in the extra configurations
  bears the name of an attribute; the inner loop of a solution then runs over its entries,
  and over nothing when it has none.
\<close>

lemma verify_phase_plain:
  "\<forall>s \<in> set solutions. configs s = None \<longrightarrow> attrs s = None \<Longrightarrow>
   verify_phase attrs configs solutions =
     Inr (concat (map (\<lambda>s. concat (verify_chunks s
       (case configs s of None \<Rightarrow> [] | Some cs \<Rightarrow> cs))) solutions))"
  by (induction solutions)
    (auto simp add: verify_steps_def verify_chunks_def getitem_def split: option.splits)

lemma render_lines_plain:
  "\<forall>s \<in> set solutions. configs s = None \<longrightarrow> attrs s = None \<Longrightarrow>
   render_lines attrs solutions configs =
     Inr (expand solutions (\<lambda>s. case configs s of None \<Rightarrow> [] | Some cs \<Rightarrow> cs))"
  by (simp add: render_lines_def expand_def verify_phase_plain)

lemma loop_items_entry: "configs s = Some cs \<Longrightarrow> loop_items attrs configs s = cs"
  by (simp add: loop_items_def getitem_def)

lemma contents_text:
  assumes "cloudbuild_contents attrs fs names = Inr text"
  shows "text =
    join_lines (expand (solutions_to_build fs names) (loop_items attrs extra_configs)) @
    [newline]"
  using assms
  by (auto simp add: cloudbuild_contents_def render_def split: sum.splits
      dest: render_lines_expand)

lemma contents_plain:
  assumes "\<forall>s \<in> set (solutions_to_build fs names).
             extra_configs s = None \<longrightarrow> attrs s = None"
  shows "cloudbuild_contents attrs fs names =
    Inr (join_lines (expand (solutions_to_build fs names)
           (\<lambda>s. case extra_configs s of None \<Rightarrow> [] | Some cs \<Rightarrow> cs)) @ [newline])"
  by (simp add: cloudbuild_contents_def render_def render_lines_plain [OF assms])

subsection \<open>Lines, line feeds and carriage returns\<close>

lemma newline_not_return [simp]:
  "newline \<noteq> carriage_return" "carriage_return \<noteq> newline"
  by (simp_all add: newline_def carriage_return_def)

lemma split_lines_not_Nil [simp]: "split_lines t \<noteq> []"
  by (induction t) (auto split: list.splits)

lemma split_lines_append_newline:
  "split_lines (a @ newline # b) = split_lines a @ split_lines b"
proof (induction a)
  case Nil
  show ?case by simp
next
  case (Cons c a)
  obtain l ls where "split_lines a = l # ls"
    using split_lines_not_Nil [of a] by (cases "split_lines a") auto
  with Cons show ?case by simp
qed

lemma split_lines_join:
  "ls \<noteq> [] \<Longrightarrow> split_lines (join_lines ls) = concat (map split_lines ls)"
proof (induction ls rule: join_lines.induct)
  case 1
  then show ?case by simp
next
  case (2 l)
  show ?case by simp
next
  case (3 l v va)
  then show ?case by (simp add: split_lines_append_newline)
qed

lemma split_lines_final_newline: "split_lines (t @ [newline]) = split_lines t @ [[]]"
  using split_lines_append_newline [of t "[]"] by simp

lemma split_lines_lacks: "lacks newline l \<Longrightarrow> split_lines l = [l]"
  by (induction l) (auto simp add: lacks_def)

lemma concat_split_lines_lacks:
  "list_all (lacks newline) ls \<Longrightarrow> concat (map split_lines ls) = ls"
  by (induction ls) (simp_all add: split_lines_lacks)

lemma join_lines_lacks:
  "c \<noteq> newline \<Longrightarrow> list_all (lacks c) ls \<Longrightarrow> lacks c (join_lines ls)"
  by (induction ls rule: join_lines.induct) (simp_all add: lacks_def)

lemma join_lines_holds:
  "l \<in> set ls \<Longrightarrow> c \<in> set l \<Longrightarrow> c \<in> set (join_lines ls)"
  by (induction ls rule: join_lines.induct) auto

lemma universal_newlines_lacks:
  "lacks carriage_return t \<Longrightarrow> universal_newlines t = t"
  by (induction t rule: universal_newlines.induct) (auto simp add: lacks_def)

lemma universal_newlines_no_return: "lacks carriage_return (universal_newlines t)"
  by (induction t rule: universal_newlines.induct) (simp_all add: lacks_def)

lemma universal_newlines_crlf:
  "lacks carriage_return t \<Longrightarrow>
   universal_newlines (t @ [carriage_return, newline]) = t @ [newline]"
  by (induction t rule: universal_newlines.induct) (auto simp add: lacks_def)

lemma preamble_lacks:
  "c = newline \<or> c = carriage_return \<Longrightarrow> list_all (lacks c) preamble"
  by (auto simp add: preamble_def lacks_def newline_def carriage_return_def)

lemma build_step_lacks:
  "c = newline \<or> c = carriage_return \<Longrightarrow> lacks c s \<Longrightarrow> list_all (lacks c) (build_step s)"
  by (auto simp add: build_step_def lacks_def newline_def carriage_return_def)

lemma verify_step_lacks:
  "c = newline \<or> c = carriage_return \<Longrightarrow> lacks c s \<Longrightarrow> list_all (lacks c) (verify_step s)"
  by (auto simp add: verify_step_def lacks_def newline_def carriage_return_def)

lemma env_var_items_lacks:
  "c = newline \<or> c = carriage_return \<Longrightarrow> list_all (lacks c) vs \<Longrightarrow>
   list_all (lacks c) (concat (map env_var_item vs))"
  by (induction vs) (auto simp add: env_var_item_def lacks_def newline_def carriage_return_def)

lemma extra_verify_step_lacks:
  "c = newline \<or> c = carriage_return \<Longrightarrow> lacks c s \<Longrightarrow> config_lacks c v \<Longrightarrow>
   list_all (lacks c) (extra_verify_step s v)"
  using env_var_items_lacks [of c "env_vars v"]
  by (auto simp add: extra_verify_step_def config_lacks_def lacks_def newline_def
      carriage_return_def)

lemma expand_lacks:
  assumes c: "c = newline \<or> c = carriage_return"
    and "list_all (lacks c) solutions"
    and "list_all (\<lambda>s. list_all (config_lacks c) (vs s)) solutions"
  shows "list_all (lacks c) (expand solutions vs)"
proof -
  have b: "list_all (lacks c) (concat (map build_step xs))"
    if "list_all (lacks c) xs" for xs
    using that by (induction xs) (simp_all add: build_step_lacks [OF c])
  have e: "list_all (lacks c) (concat (map (extra_verify_step s) cs))"
    if "lacks c s" "list_all (config_lacks c) cs" for s cs
    using that by (induction cs) (simp_all add: extra_verify_step_lacks [OF c])
  have v: "list_all (lacks c) (concat (map (\<lambda>s. concat (verify_chunks s (vs s))) xs))"
    if "list_all (lacks c) xs" "list_all (\<lambda>s. list_all (config_lacks c) (vs s)) xs" for xs
    using that
    by (induction xs) (simp_all add: verify_chunks_def verify_step_lacks [OF c] e)
  from assms(2,3) show ?thesis
    by (simp add: expand_def preamble_lacks [OF c] b v)
qed

lemma loop_items_lacks:
  assumes "c = newline \<or> c = carriage_return"
  shows "list_all (config_lacks c) (loop_items attrs extra_configs s)"
proof (cases "extra_configs s")
  case (Some cs)
  then have "s = ''wordpress''" by (simp add: extra_configs_def split: if_splits)
  with assms show ?thesis
    by (auto simp add: loop_items_def getitem_def extra_configs_def config_lacks_def
        lacks_def newline_def carriage_return_def)
next
  case None
  show ?thesis
  proof (cases "attrs s")
    case None
    with \<open>extra_configs s = None\<close> show ?thesis
      by (simp add: loop_items_def getitem_def)
  next
    case (Some a)
    with \<open>extra_configs s = None\<close> show ?thesis
      by (cases a)
        (simp_all add: loop_items_def getitem_def list_all_iff blank_config_def
          config_lacks_def lacks_def)
  qed
qed

lemma all_loop_items_lack:
  assumes "c = newline \<or> c = carriage_return"
  shows "list_all (\<lambda>s. list_all (config_lacks c) (loop_items attrs extra_configs s)) xs"
  by (induction xs) (simp_all add: loop_items_lacks [OF assms])

lemma contents_lacks:
  assumes "cloudbuild_contents attrs fs names = Inr text"
    and "list_all (lacks carriage_return) (solutions_to_build fs names)"
  shows "lacks carriage_return text"
proof -
  have "list_all (\<lambda>s. list_all (config_lacks carriage_return)
          (loop_items attrs extra_configs s)) (solutions_to_build fs names)"
    by (simp add: all_loop_items_lack)
  with assms(2)
  have "list_all (lacks carriage_return)
          (expand (solutions_to_build fs names) (loop_items attrs extra_configs))"
    by (intro expand_lacks) simp_all
  then have "lacks carriage_return
          (join_lines (expand (solutions_to_build fs names) (loop_items attrs extra_configs)))"
    by (intro join_lines_lacks) simp_all
  then show ?thesis unfolding contents_text [OF assms(1)] by (simp add: lacks_def)
qed

lemma contents_lines:
  assumes "cloudbuild_contents attrs fs names = Inr text"
    and "list_all (lacks newline) (solutions_to_build fs names)"
  shows "split_lines text =
    expand (solutions_to_build fs names) (loop_items attrs extra_configs) @ [[]]"
proof -
  let ?doc = "expand (solutions_to_build fs names) (loop_items attrs extra_configs)"
  have "list_all (\<lambda>s. list_all (config_lacks newline)
          (loop_items attrs extra_configs s)) (solutions_to_build fs names)"
    by (simp add: all_loop_items_lack)
  with assms(2) have "list_all (lacks newline) ?doc"
    by (intro expand_lacks) simp_all
  then have "concat (map split_lines ?doc) = ?doc" by (rule concat_split_lines_lacks)
  moreover have "?doc \<noteq> []" by (simp add: expand_def preamble_def)
  ultimately show ?thesis
    unfolding contents_text [OF assms(1)]
    by (simp add: split_lines_final_newline split_lines_join)
qed

subsection \<open>Example runs\<close>

lemma latin1_codec [simp]:
  "encode latin1 t = Some t" "decode latin1 t = Some t" "printable latin1 t"
  by (simp_all add: latin1_def)

lemma latin1_prints [simp]: "list_all (printable latin1) ls"
  by (simp add: list_all_iff)

lemma redis_contents:
  "cloudbuild_contents dict_attributes stale_fs [''redis''] =
     Inr (join_lines (expand [''redis''] (\<lambda>s. [])) @ [newline])"
proof -
  have s: "solutions_to_build stale_fs [''redis''] = [''redis'']"
    by (simp add: solutions_to_build_def sorted_listdir_def stale_fs_def skiplist_def)
  have n: "extra_configs ''redis'' = None" by (simp add: extra_configs_def)
  have "\<forall>s \<in> set (solutions_to_build stale_fs [''redis'']).
          extra_configs s = None \<longrightarrow> dict_attributes s = None"
    by (simp add: s dict_attributes_def)
  from contents_plain [OF this] show ?thesis by (simp add: s expand_def n)
qed

lemma redis_lacks_return:
  "lacks carriage_return (join_lines (expand [''redis''] (\<lambda>s. [])) @ [newline])"
proof -
  have "list_all (lacks carriage_return) (solutions_to_build stale_fs [''redis''])"
    by (simp add: solutions_to_build_def sorted_listdir_def stale_fs_def skiplist_def
        lacks_def carriage_return_def)
  from contents_lacks [OF redis_contents this] show ?thesis .
qed

lemma empty_contents:
  "cloudbuild_contents attrs crlf_fs [''README.md''] = Inr (join_lines preamble @ [newline])"
proof -
  have s: "solutions_to_build crlf_fs [''README.md''] = []"
    by (simp add: solutions_to_build_def sorted_listdir_def crlf_fs_def)
  show ?thesis
    by (simp add: cloudbuild_contents_def render_def render_lines_def s)
qed

lemma preamble_text_lacks_return: "lacks carriage_return (join_lines preamble)"
  by (intro join_lines_lacks preamble_lacks) simp_all

subsection \<open>Write mode and verify mode\<close>

text \<open>
  C2, as the code has it. When \<^verbatim>\<open>k8s\<close> can be listed, the lines of the loop can be
  printed and rendering gives a document, verify mode exits with status 0 exactly when \<^verbatim>\<open>cloudbuild.yaml\<close> is a regular file that
  can be read and whose text, as text mode reads it (the bytes decoded, every \<^verbatim>\<open>CR LF\<close>
  and every other \<^verbatim>\<open>CR\<close> taken for a line feed), equals the document. When the path is
  no regular file, or the text read differs from the document in any character, it prints
  that the file is not up-to-date and exits with status 1. When the file cannot be opened
  or decoded, the run ends with that error.
\<close>

theorem verify_only_exit_code:
  assumes "listdir fs = Some names"
    and "list_all (printable codec) (printed_lines fs names)"
    and "cloudbuild_contents attrs fs names = Inr contents"
  shows "(status (main attrs codec True fs) = Exit 0 \<longleftrightarrow>
            (\<exists>f. cloudbuild_yaml fs = Regular f \<and> read_text codec f = Inr contents)) \<and>
         ((\<forall>f. cloudbuild_yaml fs \<noteq> Regular f) \<or>
          (\<exists>f text. cloudbuild_yaml fs = Regular f \<and> read_text codec f = Inr text \<and>
             text \<noteq> contents) \<longrightarrow>
            status (main attrs codec True fs) = Exit 1 \<and>
            last (printed (main attrs codec True fs)) =
              ''The cloudbuild.yaml file is not up-to-date. Please re-generate it'') \<and>
         (\<forall>f e. cloudbuild_yaml fs = Regular f \<and> read_text codec f = Inl e \<longrightarrow>
            status (main attrs codec True fs) = Raised e)"
proof (cases "cloudbuild_yaml fs")
  case Missing
  with assms show ?thesis
    by (simp add: main_def Let_def verify_cloudbuild_def CLOUDBUILD_CONFIG_def)
next
  case Directory
  with assms show ?thesis
    by (simp add: main_def Let_def verify_cloudbuild_def CLOUDBUILD_CONFIG_def)
next
  case (Regular f)
  show ?thesis
  proof (cases "read_text codec f")
    case (Inl e)
    with assms Regular show ?thesis
      by (simp add: main_def Let_def verify_cloudbuild_def)
  next
    case (Inr read)
    with assms Regular show ?thesis
      by (cases "read = contents")
        (simp_all add: main_def Let_def verify_cloudbuild_def CLOUDBUILD_CONFIG_def)
  qed
qed

text \<open>The scenario of a file that differs by one trailing blank only.\<close>

theorem verify_only_exit_code_witness:
  "listdir stale_fs = Some [''redis''] \<and>
   cloudbuild_contents dict_attributes stale_fs [''redis''] =
     Inr (join_lines (expand [''redis''] (\<lambda>s. [])) @ [newline]) \<and>
   status (main dict_attributes latin1 True stale_fs) = Exit 1"
proof -
  let ?doc = "join_lines (expand [''redis''] (\<lambda>s. [])) @ [newline]"
  let ?f = "new_file\<lparr>bytes := ?doc @ '' ''\<rparr>"
  have l: "listdir stale_fs = Some [''redis'']" by (simp add: stale_fs_def)
  have y: "cloudbuild_yaml stale_fs = Regular ?f" by (simp add: stale_fs_def)
  have "lacks carriage_return (?doc @ '' '')"
    using redis_lacks_return by (simp add: lacks_def carriage_return_def)
  then have r: "read_text latin1 ?f = Inr (?doc @ '' '')"
    by (simp add: read_text_def new_file_def universal_newlines_lacks)
  have "?doc @ '' '' \<noteq> ?doc" by simp
  with verify_only_exit_code [OF l latin1_prints redis_contents] y r l redis_contents
  show ?thesis by blast
qed

text \<open>
  C2 without the reading in text mode does not hold: a file whose last line ends in \<^verbatim>\<open>CR LF\<close> differs
  from the rendered document in its bytes, and verify mode exits with status 0.
\<close>

theorem verify_only_crlf_counterexample:
  "cloudbuild_contents dict_attributes crlf_fs [''README.md''] =
     Inr (join_lines preamble @ [newline]) \<and>
   encode latin1 (join_lines preamble @ [newline]) = Some (join_lines preamble @ [newline]) \<and>
   cloudbuild_yaml crlf_fs =
     Regular (new_file\<lparr>bytes := join_lines preamble @ [carriage_return, newline]\<rparr>) \<and>
   join_lines preamble @ [carriage_return, newline] \<noteq> join_lines preamble @ [newline] \<and>
   status (main dict_attributes latin1 True crlf_fs) = Exit 0"
proof -
  have y: "cloudbuild_yaml crlf_fs =
     Regular (new_file\<lparr>bytes := join_lines preamble @ [carriage_return, newline]\<rparr>)"
    by (simp add: crlf_fs_def)
  have r: "read_text latin1
             (new_file\<lparr>bytes := join_lines preamble @ [carriage_return, newline]\<rparr>) =
           Inr (join_lines preamble @ [newline])"
    by (simp add: read_text_def new_file_def
        universal_newlines_crlf [OF preamble_text_lacks_return])
  have l: "listdir crlf_fs = Some [''README.md'']" by (simp add: crlf_fs_def)
  have "status (main dict_attributes latin1 True crlf_fs) = Exit 0"
    using l empty_contents [of dict_attributes] y r
    by (simp add: main_def Let_def verify_cloudbuild_def)
  with empty_contents [of dict_attributes] y show ?thesis by simp
qed




text \<open>
  C9. Verify mode leaves the file system as it found it, whatever the listing and the
  output file are, and also when listing \<^verbatim>\<open>k8s\<close>, rendering, or reading the file fails.
\<close>

theorem verify_only_leaves_files: "fs_after (main attrs codec True fs) = fs"
  by (simp add: main_def Let_def split: option.split sum.split bool.split)

subsection \<open>Determinism\<close>

text \<open>
  C8. The outcome of rendering depends on the set of sub-directories of \<^verbatim>\<open>k8s\<close> only: two
  runs that see the same directories render the same text, whatever the order in which the
  entries are listed, whatever plain files stand beside them and whatever the output file
  holds. (The skip-list and the extra configurations are constants of the script.)
\<close>

theorem rendering_deterministic:
  assumes "distinct names1" and "distinct names2"
    and "{f \<in> set names1. isdir fs1 f} = {f \<in> set names2. isdir fs2 f}"
  shows "cloudbuild_contents attrs fs1 names1 = cloudbuild_contents attrs fs2 names2"
  using assms
  by (simp add: cloudbuild_contents_def solutions_to_build_def sorted_listdir_set)

theorem rendering_deterministic_witness:
  "cloudbuild_contents dict_attributes fresh_fs
     [''wordpress'', ''spark-operator'', ''README.md'', ''redis''] =
   cloudbuild_contents dict_attributes shuffled_fs
     [''redis'', ''wordpress'', ''spark-operator'', ''Makefile'']"
proof -
  have 1: "distinct [''wordpress'', ''spark-operator'', ''README.md'', ''redis'']" by simp
  have 2: "distinct [''redis'', ''wordpress'', ''spark-operator'', ''Makefile'']" by simp
  have 3: "{f \<in> set [''wordpress'', ''spark-operator'', ''README.md'', ''redis''].
              isdir fresh_fs f} =
           {f \<in> set [''redis'', ''wordpress'', ''spark-operator'', ''Makefile''].
              isdir shuffled_fs f}"
    by (auto simp add: fresh_fs_def shuffled_fs_def)
  from rendering_deterministic [OF 1 2 3] show ?thesis .
qed

subsection \<open>Reading the steps off the rendered lines\<close>

lemma takeWhile_stops: "\<not> P y \<Longrightarrow> takeWhile P (xs @ y # ys) = takeWhile P xs"
  by (induction xs) simp_all

lemma steps_append_blank: "steps (xs @ [] # ys) = steps xs @ steps ys"
  by (induction xs) (simp_all add: takeWhile_stops nonblank_def is_id_line_def)

lemma steps_plain: "list_all plain_line xs \<Longrightarrow> steps (xs @ ys) = steps ys"
  by (induction xs) (simp_all add: plain_line_def)

lemma takeWhile_plain:
  "list_all plain_line xs \<Longrightarrow> at_break ys \<Longrightarrow> takeWhile nonblank (xs @ ys) = xs"
proof (induction xs)
  case Nil
  then show ?case by (cases ys) (simp_all add: nonblank_def)
next
  case (Cons x xs)
  then show ?case by (simp add: plain_line_def)
qed

lemma steps_chunk_append:
  assumes "step_chunk c" and "at_break ys"
  shows "steps (c @ ys) = tl c # steps ys"
proof -
  from assms(1) obtain l rest where c: "c = [] # l # rest"
    and l: "is_id_line l" and r: "list_all plain_line rest"
    by (auto simp add: step_chunk_def split: list.splits)
  show ?thesis
    using l takeWhile_plain [OF r assms(2)] steps_plain [OF r, of ys]
    by (simp add: c is_id_line_def)
qed

lemma concat_chunks_blank:
  "\<forall>c \<in> set cs. step_chunk c \<Longrightarrow> at_break (concat cs)"
  by (cases cs) (auto simp add: step_chunk_def split: list.splits)

lemma steps_concat_chunks:
  "\<forall>c \<in> set cs. step_chunk c \<Longrightarrow> steps (concat cs) = map tl cs"
proof (induction cs)
  case Nil
  show ?case by simp
next
  case (Cons c cs)
  then have "step_chunk c" and rest: "\<forall>c \<in> set cs. step_chunk c" by simp_all
  from steps_chunk_append [OF this(1) concat_chunks_blank [OF rest]] Cons.IH [OF rest]
  show ?case by simp
qed

lemma steps_before_chunks:
  assumes "\<forall>c \<in> set cs. step_chunk c"
  shows "steps (xs @ concat cs) = steps xs @ map tl cs"
proof (cases "concat cs")
  case Nil
  with steps_concat_chunks [OF assms] show ?thesis by simp
next
  case (Cons y ys)
  with concat_chunks_blank [OF assms] have "concat cs = [] # ys" by simp
  with steps_append_blank [of xs ys] steps_concat_chunks [OF assms] show ?thesis
    by (simp add: is_id_line_def)
qed

lemma chunk_build_step: "step_chunk (build_step s)"
  by (simp add: step_chunk_def build_step_def plain_line_def nonblank_def is_id_line_def)

lemma chunk_verify_step: "step_chunk (verify_step s)"
  by (simp add: step_chunk_def verify_step_def plain_line_def nonblank_def is_id_line_def)

lemma plain_env_var_items: "list_all plain_line (concat (map env_var_item vs))"
  by (induction vs) (simp_all add: env_var_item_def plain_line_def nonblank_def is_id_line_def)

lemma chunk_extra_verify_step: "step_chunk (extra_verify_step s c)"
  using plain_env_var_items [of "env_vars c"]
  by (simp add: step_chunk_def extra_verify_step_def plain_line_def nonblank_def is_id_line_def)

lemma expand_chunks:
  "expand sols vs =
     preamble @ concat (map build_step sols @ concat (map (\<lambda>s. verify_chunks s (vs s)) sols))"
proof -
  have "concat (map (\<lambda>s. concat (verify_chunks s (vs s))) sols) =
        concat (concat (map (\<lambda>s. verify_chunks s (vs s)) sols))"
    by (induction sols) simp_all
  then show ?thesis by (simp add: expand_def)
qed

lemma steps_expand:
  "steps (expand sols vs) =
     steps preamble @ map (\<lambda>s. tl (build_step s)) sols @
     concat (map (\<lambda>s. map tl (verify_chunks s (vs s))) sols)"
proof -
  have "\<forall>c \<in> set (map build_step sols @ concat (map (\<lambda>s. verify_chunks s (vs s)) sols)).
          step_chunk c"
    by (auto simp add: verify_chunks_def chunk_build_step chunk_verify_step
        chunk_extra_verify_step)
  from steps_before_chunks [OF this, of preamble] show ?thesis
    by (simp add: expand_chunks map_concat o_def)
qed

lemma id_build: "step_id (tl (build_step s)) = ''Build '' @ s"
  by (simp add: build_step_def)

lemma id_verify: "step_id (tl (verify_step s)) = ''Verify '' @ s"
  by (simp add: verify_step_def)

lemma id_extra:
  "step_id (tl (extra_verify_step s c)) = ''Verify '' @ s @ '' ('' @ name c @ '')''"
  by (simp add: extra_verify_step_def)

lemma wait_build: "wait_for (tl (build_step s)) = []"
  by (simp add: build_step_def wait_for_def items_def)

lemma wait_verify:
  "wait_for (tl (verify_step s)) =
     [''Copy kubectl Credentials'', ''Copy gcloud Credentials'', ''Pull Dev Image'',
      ''Build '' @ s]"
  by (simp add: verify_step_def wait_for_def items_def is_item_def is_comment_def)

lemma wait_extra:
  "wait_for (tl (extra_verify_step s c)) =
     [''Copy kubectl Credentials'', ''Copy gcloud Credentials'', ''Pull Dev Image'',
      ''Build '' @ s]"
  by (simp add: extra_verify_step_def wait_for_def items_def is_item_def is_comment_def)

lemma vars_build: "non_default_vars (tl (build_step s)) = []"
  by (simp add: build_step_def non_default_vars_def)

lemma vars_verify: "non_default_vars (tl (verify_step s)) = []"
  by (simp add: verify_step_def non_default_vars_def)

lemma takeWhile_env_var_items:
  "\<not> is_item l \<Longrightarrow>
   map (drop 4) (takeWhile is_item (concat (map env_var_item vs) @ l # ls)) =
     map (\<lambda>e. q @ e @ q) vs"
  by (induction vs) (simp_all add: env_var_item_def is_item_def)

lemma vars_extra:
  "non_default_vars (tl (extra_verify_step s c)) = map (\<lambda>e. q @ e @ q) (env_vars c)"
  by (simp add: extra_verify_step_def non_default_vars_def takeWhile_env_var_items is_item_def)

lemma env_build: "env_entries (tl (build_step s)) = default_env"
  by (simp add: build_step_def env_entries_def items_def is_item_def is_comment_def)

lemma env_verify: "env_entries (tl (verify_step s)) = default_env"
  by (simp add: verify_step_def env_entries_def items_def is_item_def is_comment_def)

lemma items_env_var_items:
  "\<not> is_item l \<Longrightarrow> \<not> is_comment l \<Longrightarrow>
   map (drop 4) (filter is_item
     (takeWhile (\<lambda>l. is_item l \<or> is_comment l) (concat (map env_var_item vs) @ l # ls))) =
     map (\<lambda>e. q @ e @ q) vs"
  by (induction vs) (simp_all add: env_var_item_def is_item_def)

lemma env_extra:
  "env_entries (tl (extra_verify_step s c)) = default_env @ map (\<lambda>e. q @ e @ q) (env_vars c)"
proof -
  have "\<not> is_item (''  dir: k8s/'' @ s)" "\<not> is_comment (''  dir: k8s/'' @ s)"
    by (simp_all add: is_item_def is_comment_def)
  from items_env_var_items [OF this] show ?thesis
    by (simp add: extra_verify_step_def env_entries_def items_def is_item_def is_comment_def)
qed

lemma preamble_env_vars:
  "map (\<lambda>b. (step_id b, env_entries b, non_default_vars b)) (steps preamble) =
     [(''Pull Dev Image'', [], []),
      (''Get Kubernetes Credentials'', [], []),
      (''Copy kubectl Credentials'', [], []),
      (''Copy gcloud Credentials'', [], [])]"
  by (simp add: preamble_def is_id_line_def nonblank_def items_def is_item_def
      is_comment_def non_default_vars_def env_entries_def)

lemma preamble_steps:
  "map (\<lambda>b. (step_id b, wait_for b, non_default_vars b)) (steps preamble) =
     [(''Pull Dev Image'', [], []),
      (''Get Kubernetes Credentials'', [], []),
      (''Copy kubectl Credentials'', [''Get Kubernetes Credentials''], []),
      (''Copy gcloud Credentials'', [''Get Kubernetes Credentials''], [])]"
  by (simp add: preamble_def is_id_line_def nonblank_def wait_for_def items_def is_item_def
      is_comment_def non_default_vars_def)

lemma step_views_expand:
  "map (\<lambda>b. (step_id b, wait_for b, non_default_vars b)) (steps (expand solutions vs)) =
     [(''Pull Dev Image'', [], []),
      (''Get Kubernetes Credentials'', [], []),
      (''Copy kubectl Credentials'', [''Get Kubernetes Credentials''], []),
      (''Copy gcloud Credentials'', [''Get Kubernetes Credentials''], [])] @
     map (\<lambda>s. (''Build '' @ s, [], [])) solutions @
     concat (map (\<lambda>s.
       (''Verify '' @ s,
        [''Copy kubectl Credentials'', ''Copy gcloud Credentials'', ''Pull Dev Image'',
         ''Build '' @ s], []) #
       map (\<lambda>c. (''Verify '' @ s @ '' ('' @ name c @ '')'',
                  [''Copy kubectl Credentials'', ''Copy gcloud Credentials'',
                   ''Pull Dev Image'', ''Build '' @ s],
                  map (\<lambda>e. q @ e @ q) (env_vars c)))
         (vs s)) solutions)"
  unfolding steps_expand map_append preamble_steps
  by (simp add: map_concat o_def verify_chunks_def id_build id_verify id_extra
      wait_build wait_verify wait_extra vars_build vars_verify vars_extra)

lemma preamble_ids:
  "map step_id (steps preamble) =
     [''Pull Dev Image'', ''Get Kubernetes Credentials'', ''Copy kubectl Credentials'',
      ''Copy gcloud Credentials'']"
  using preamble_steps [THEN arg_cong, of "map fst"]
  by (simp add: o_def)

lemma ids_waits_expand:
  "map (\<lambda>b. (step_id b, wait_for b)) (steps (expand solutions vs)) =
     [(''Pull Dev Image'', []),
      (''Get Kubernetes Credentials'', []),
      (''Copy kubectl Credentials'', [''Get Kubernetes Credentials'']),
      (''Copy gcloud Credentials'', [''Get Kubernetes Credentials''])] @
     map (\<lambda>s. (''Build '' @ s, [])) solutions @
     concat (map (\<lambda>s.
       (''Verify '' @ s,
        [''Copy kubectl Credentials'', ''Copy gcloud Credentials'', ''Pull Dev Image'',
         ''Build '' @ s]) #
       map (\<lambda>c. (''Verify '' @ s @ '' ('' @ name c @ '')'',
                  [''Copy kubectl Credentials'', ''Copy gcloud Credentials'',
                   ''Pull Dev Image'', ''Build '' @ s]))
         (vs s)) solutions)"
  (is "?lhs = ?rhs")
proof -
  have "?lhs =
        map (\<lambda>(i, w, v). (i, w))
          (map (\<lambda>b. (step_id b, wait_for b, non_default_vars b))
            (steps (expand solutions vs)))"
    by simp
  also have "\<dots> = ?rhs"
    unfolding step_views_expand
    by (simp add: map_concat o_def)
  finally show ?thesis .
qed

lemma step_ids_expand:
  "step_ids (expand solutions vs) =
     [''Pull Dev Image'', ''Get Kubernetes Credentials'', ''Copy kubectl Credentials'',
      ''Copy gcloud Credentials''] @
     map (\<lambda>s. ''Build '' @ s) solutions @
     concat (map (\<lambda>s. (''Verify '' @ s) #
       map (\<lambda>c. ''Verify '' @ s @ '' ('' @ name c @ '')'') (vs s))
       solutions)"
  unfolding step_ids_def steps_expand map_append preamble_ids
  by (simp add: map_concat o_def verify_chunks_def id_build id_verify id_extra)

lemma built_solutions_expand: "built_solutions (expand solutions vs) = solutions"
proof -
  have v: "filter (prefix ''Build '') (concat (map (\<lambda>s. (''Verify '' @ s) #
       map (\<lambda>c. ''Verify '' @ s @ '' ('' @ name c @ '')'') (f s)) xs)) = []"
    for xs :: "string list" and f :: "string \<Rightarrow> extra_config list"
    by (induction xs) (simp_all add: filter_empty_conv)
  show ?thesis
    unfolding built_solutions_def step_ids_expand filter_append map_append
    by (simp add: v o_def)
qed

lemma steps_trailing_blank: "steps (ls @ [[]]) = steps ls"
  using steps_append_blank [of ls "[]"] by simp

text \<open>
  When no solution name holds a line feed, the steps of the text that is rendered are the
  steps of the lines the template produces.
\<close>

lemma text_steps_contents:
  assumes "cloudbuild_contents attrs fs names = Inr text"
    and "list_all (lacks newline) (solutions_to_build fs names)"
  shows "text_steps text =
    steps (expand (solutions_to_build fs names) (loop_items attrs extra_configs))"
  unfolding text_steps_def contents_lines [OF assms] by (rule steps_trailing_blank)

subsection \<open>Runs on example directories\<close>

lemma text_steps_join:
  "ls \<noteq> [] \<Longrightarrow> text_steps (join_lines ls @ [newline]) = steps (concat (map split_lines ls))"
  by (simp add: text_steps_def split_lines_final_newline split_lines_join steps_trailing_blank)

lemma split_expand:
  "concat (map split_lines (expand sols vs)) =
     preamble @
     concat (map split_lines
       (concat (map build_step sols) @
        concat (map (\<lambda>s. concat (verify_chunks s (vs s))) sols)))"
  by (simp add: expand_def concat_split_lines_lacks preamble_lacks)

lemma text_steps_expand:
  "text_steps (join_lines (expand sols vs) @ [newline]) =
     steps (preamble @
       concat (map split_lines
         (concat (map build_step sols) @
          concat (map (\<lambda>s. concat (verify_chunks s (vs s))) sols))))"
proof -
  have "expand sols vs \<noteq> []" by (simp add: expand_def preamble_def)
  then show ?thesis by (simp add: text_steps_join split_expand)
qed

lemma directories_run:
  assumes "solutions_to_build (directories ns) ns = sols"
    and "\<forall>s \<in> set sols. extra_configs s = None \<longrightarrow> dict_attributes s = None"
  shows "cloudbuild_contents dict_attributes (directories ns) ns =
           Inr (join_lines (expand sols
             (\<lambda>s. case extra_configs s of None \<Rightarrow> [] | Some cs \<Rightarrow> cs)) @ [newline])"
    and "main dict_attributes latin1 False (directories ns) =
           \<lparr>printed = printed_lines (directories ns) ns,
            status = Exit 0,
            fs_after = (directories ns)\<lparr>cloudbuild_yaml := Regular (new_file\<lparr>bytes :=
              join_lines (expand sols
                (\<lambda>s. case extra_configs s of None \<Rightarrow> [] | Some cs \<Rightarrow> cs)) @ [newline]\<rparr>)\<rparr>\<rparr>"
proof -
  from assms(2) have "\<forall>s \<in> set (solutions_to_build (directories ns) ns).
      extra_configs s = None \<longrightarrow> dict_attributes s = None"
    by (simp add: assms(1))
  from contents_plain [OF this]
  show c: "cloudbuild_contents dict_attributes (directories ns) ns =
           Inr (join_lines (expand sols
             (\<lambda>s. case extra_configs s of None \<Rightarrow> [] | Some cs \<Rightarrow> cs)) @ [newline])"
    by (simp add: assms(1))
  have l: "listdir (directories ns) = Some ns" by (simp add: directories_def)
  have o: "open_for_writing (directories ns) = Inr new_file"
    by (simp add: open_for_writing_def directories_def new_file_def)
  show "main dict_attributes latin1 False (directories ns) =
           \<lparr>printed = printed_lines (directories ns) ns,
            status = Exit 0,
            fs_after = (directories ns)\<lparr>cloudbuild_yaml := Regular (new_file\<lparr>bytes :=
              join_lines (expand sols
                (\<lambda>s. case extra_configs s of None \<Rightarrow> [] | Some cs \<Rightarrow> cs)) @ [newline]\<rparr>)\<rparr>\<rparr>"
    by (simp add: main_def Let_def l c o)
qed

lemma fresh_solutions:
  "solutions_to_build fresh_fs [''wordpress'', ''spark-operator'', ''README.md'', ''redis''] =
     [''redis'', ''wordpress'']"
  by (simp add: solutions_to_build_def sorted_listdir_def fresh_fs_def skiplist_def)

lemma fresh_contents:
  "cloudbuild_contents dict_attributes fresh_fs
     [''wordpress'', ''spark-operator'', ''README.md'', ''redis''] =
   Inr (join_lines (expand [''redis'', ''wordpress'']
          (\<lambda>s. case extra_configs s of None \<Rightarrow> [] | Some cs \<Rightarrow> cs)) @ [newline])"
proof -
  have "\<forall>s \<in> set (solutions_to_build fresh_fs
            [''wordpress'', ''spark-operator'', ''README.md'', ''redis'']).
          extra_configs s = None \<longrightarrow> dict_attributes s = None"
    unfolding fresh_solutions by (simp add: dict_attributes_def)
  from contents_plain [OF this] show ?thesis by (simp only: fresh_solutions)
qed

lemma fresh_lacks_newline:
  "list_all (lacks newline) (solutions_to_build fresh_fs
     [''wordpress'', ''spark-operator'', ''README.md'', ''redis''])"
  unfolding fresh_solutions by (simp add: lacks_def newline_def)

lemma fresh_loop_items:
  "loop_items dict_attributes extra_configs ''redis'' = []"
  "loop_items dict_attributes extra_configs ''wordpress'' =
     [\<lparr>name = ''Public service and ingress'',
       env_vars = [''PUBLIC_SERVICE_AND_INGRESS_ENABLED=true'']\<rparr>,
      \<lparr>name = ''Prometheus metrics'',
       env_vars = [''METRICS_EXPORTER_ENABLED=true'']\<rparr>]"
  by (simp_all add: loop_items_def getitem_def extra_configs_def dict_attributes_def)

subsection \<open>The order of the steps\<close>







subsection \<open>Solutions without an entry in the extra configurations\<close>

text \<open>
  A solution without an entry whose name is no attribute of the dictionary is rendered
  with its Verify step alone.
\<close>

lemma missing_key_plain_name:
  assumes "configs solution = None" and "attrs solution = None"
  shows "verify_steps attrs configs solution = Inr (verify_step solution)"
  using assms by (simp add: verify_steps_def getitem_def)

text \<open>
  C4. The subscript of a solution without an entry is undefined only when the name of the
  solution is no attribute of the dictionary. A directory named \<^verbatim>\<open>keys\<close> has no entry in the
  extra configurations, yet the subscript finds the method \<^verbatim>\<open>keys\<close> of the dictionary, the
  loop over it raises \<^verbatim>\<open>TypeError\<close>, and the script ends with that error in write mode and
  in verify mode, with no document rendered.
\<close>

theorem missing_key_method_name_fails:
  "extra_configs ''keys'' = None \<and>
   verify_steps dict_attributes extra_configs ''keys'' = Inl TypeError \<and>
   status (main dict_attributes latin1 False keys_fs) = Raised TypeError \<and>
   status (main dict_attributes latin1 True keys_fs) = Raised TypeError"
proof -
  have n: "extra_configs ''keys'' = None" by (simp add: extra_configs_def)
  have m: "dict_attributes ''keys'' = Some NotIterable" by (simp add: dict_attributes_def)
  have v: "verify_steps dict_attributes extra_configs ''keys'' = Inl TypeError"
    by (simp add: verify_steps_def getitem_def n m)
  have s: "solutions_to_build keys_fs [''keys'', ''redis''] = [''keys'', ''redis'']"
    by (simp add: solutions_to_build_def sorted_listdir_def keys_fs_def skiplist_def)
  have c: "cloudbuild_contents dict_attributes keys_fs [''keys'', ''redis''] = Inl TypeError"
    by (simp add: cloudbuild_contents_def render_def render_lines_def s v)
  have l: "listdir keys_fs = Some [''keys'', ''redis'']" by (simp add: keys_fs_def)
  from n v c l show ?thesis by (simp add: main_def Let_def)
qed

text \<open>
  The same happens for the other attributes that cannot be iterated, such as \<^verbatim>\<open>__len__\<close>;
  for \<^verbatim>\<open>__doc__\<close> the loop runs once for every character of the string.
\<close>

lemma missing_key_dunder_name_fails:
  "verify_steps dict_attributes extra_configs ''__len__'' = Inl TypeError"
  by (simp add: verify_steps_def getitem_def extra_configs_def dict_attributes_def)

lemma missing_key_doc_name_loops:
  "loop_items dict_attributes extra_configs ''__doc__'' = map (\<lambda>c. blank_config) dict_doc"
  by (simp add: loop_items_def getitem_def extra_configs_def dict_attributes_def)

subsection \<open>Discovery and the skip-list\<close>




text \<open>
  C7. When no entry of \<^verbatim>\<open>k8s\<close> is a directory, the rendered text is the text of the
  preamble followed by one line feed, and the steps of that text are the four steps of the
  preamble: there is no Build step and no Verify step.
\<close>

theorem empty_root_preamble_only:
  assumes "\<forall>f \<in> set names. \<not> isdir fs f"
  shows "cloudbuild_contents attrs fs names = Inr (join_lines preamble @ [newline]) \<and>
         step_ids (split_lines (join_lines preamble @ [newline])) =
           [''Pull Dev Image'', ''Get Kubernetes Credentials'', ''Copy kubectl Credentials'',
            ''Copy gcloud Credentials''] \<and>
         built_solutions (split_lines (join_lines preamble @ [newline])) = []"
proof -
  from assms have "[f \<leftarrow> names. isdir fs f] = []" by (simp add: filter_empty_conv)
  then have s: "solutions_to_build fs names = []"
    by (simp add: solutions_to_build_def sorted_listdir_def)
  have c: "cloudbuild_contents attrs fs names = Inr (join_lines preamble @ [newline])"
    by (simp add: cloudbuild_contents_def render_def render_lines_def s)
  have "preamble \<noteq> []" by (simp add: preamble_def)
  then have "split_lines (join_lines preamble @ [newline]) = preamble @ [[]]"
    by (simp add: split_lines_final_newline split_lines_join concat_split_lines_lacks
        preamble_lacks)
  then have i: "step_ids (split_lines (join_lines preamble @ [newline])) =
           [''Pull Dev Image'', ''Get Kubernetes Credentials'', ''Copy kubectl Credentials'',
            ''Copy gcloud Credentials'']"
    by (simp add: step_ids_def steps_trailing_blank preamble_ids)
  then have "built_solutions (split_lines (join_lines preamble @ [newline])) = []"
    by (simp add: built_solutions_def)
  with c i show ?thesis by simp
qed

theorem empty_root_preamble_only_witness:
  "\<not> isdir fresh_fs ''README.md'' \<and>
   cloudbuild_contents dict_attributes fresh_fs [''README.md''] =
     Inr (join_lines preamble @ [newline]) \<and>
   step_ids (split_lines (join_lines preamble @ [newline])) =
     [''Pull Dev Image'', ''Get Kubernetes Credentials'', ''Copy kubectl Credentials'',
      ''Copy gcloud Credentials'']"
proof -
  have n: "\<not> isdir fresh_fs ''README.md''" by (simp add: fresh_fs_def)
  then have h: "\<forall>f \<in> set [''README.md'']. \<not> isdir fresh_fs f" by simp
  from empty_root_preamble_only [OF h] n show ?thesis by blast
qed

subsection \<open>The \<^verbatim>\<open>waitFor\<close> entries\<close>

lemma waits_defined_append:
  "waits_defined seen (xs @ ys) =
     (waits_defined seen xs \<and> waits_defined (rev (map fst xs) @ seen) ys)"
  by (induction seen xs rule: waits_defined.induct) simp_all

lemma waits_defined_none:
  "waits_defined seen (map (\<lambda>s. (f s, [])) xs)"
  by (induction xs arbitrary: seen) simp_all

lemma waits_defined_within:
  "\<forall>(i, waits) \<in> set vs. set waits \<subseteq> set seen \<Longrightarrow> waits_defined seen vs"
proof (induction seen vs rule: waits_defined.induct)
  case (1 seen)
  show ?case by simp
next
  case (2 seen i waits rest)
  from "2.prems" have "\<forall>(j, w) \<in> set rest. set w \<subseteq> set (i # seen)" by auto
  from "2.IH" [OF this] "2.prems" show ?case by (auto simp add: list_all_iff)
qed




end
